theory Spec2Isabelle
  imports Complex_Main "HOL-Library.Sublist" "HOL-Library.Char_ord" "HOL-Library.List_Lexorder"
begin

section \<open>Strings\<close>

text \<open>
  Labels are Python \<open>str\<close> values, modelled as \<open>string\<close>: a list of 8-bit characters,
  the bytes of the label in UTF-8. \<open>str.isspace\<close>, \<open>str.upper\<close>, \<open>str.lower\<close> and the
  regular-expression classes \<open>\s\<close> and \<open>\d\<close> are modelled on the ASCII range, where
  Python's whitespace is TAB, LF, VT, FF, CR, FS, GS, RS, US and the space, and the
  digits are \<open>0\<close> to \<open>9\<close>; a byte above \<open>0x7F\<close> is kept as it is.
\<close>

datatype py_error = ValueError | KeyError

definition is_space :: "char \<Rightarrow> bool" where
  "is_space c = ((of_char c :: nat) \<in> {9, 10, 11, 12, 13, 28, 29, 30, 31, 32})"

definition is_digit :: "char \<Rightarrow> bool" where
  "is_digit c = (c \<in> set ''0123456789'')"

definition is_AZ :: "char \<Rightarrow> bool" where
  "is_AZ c = (c \<in> set ''ABCDEFGHIJKLMNOPQRSTUVWXYZ'')"

definition is_az :: "char \<Rightarrow> bool" where
  "is_az c = (c \<in> set ''abcdefghijklmnopqrstuvwxyz'')"

definition is_q14 :: "char \<Rightarrow> bool" where
  "is_q14 c = (c \<in> set ''1234'')"

definition upper_char :: "char \<Rightarrow> char" where
  "upper_char c =
     (case map_of (zip ''abcdefghijklmnopqrstuvwxyz'' ''ABCDEFGHIJKLMNOPQRSTUVWXYZ'') c of
        Some u \<Rightarrow> u | None \<Rightarrow> c)"

definition lower_char :: "char \<Rightarrow> char" where
  "lower_char c =
     (case map_of (zip ''ABCDEFGHIJKLMNOPQRSTUVWXYZ'' ''abcdefghijklmnopqrstuvwxyz'') c of
        Some u \<Rightarrow> u | None \<Rightarrow> c)"

definition upper :: "string \<Rightarrow> string" where
  "upper s = map upper_char s"

definition lower :: "string \<Rightarrow> string" where
  "lower s = map lower_char s"

definition lstrip :: "string \<Rightarrow> string" where
  "lstrip s = dropWhile is_space s"

definition rstrip :: "string \<Rightarrow> string" where
  "rstrip s = rev (dropWhile is_space (rev s))"

definition strip :: "string \<Rightarrow> string" where
  "strip s = rstrip (lstrip s)"

definition startswith :: "string \<Rightarrow> string \<Rightarrow> bool" where
  "startswith s p = (take (length p) s = p)"

definition endswith :: "string \<Rightarrow> string \<Rightarrow> bool" where
  "endswith s p = (length p \<le> length s \<and> drop (length s - length p) s = p)"

text \<open>\<open>s.replace(p, r)\<close> for a non-empty \<open>p\<close>: the non-overlapping occurrences, left to right.\<close>

fun replace_str :: "string \<Rightarrow> string \<Rightarrow> string \<Rightarrow> string" where
  "replace_str p r [] = []"
| "replace_str p r (c # cs) =
     (if p \<noteq> [] \<and> startswith (c # cs) p
      then r @ replace_str p r (drop (length p) (c # cs))
      else c # replace_str p r cs)"

text \<open>\<open>p in s\<close> on strings.\<close>

fun contains :: "string \<Rightarrow> string \<Rightarrow> bool" where
  "contains [] p = (p = [])"
| "contains (c # cs) p = (startswith (c # cs) p \<or> contains cs p)"

text \<open>\<open>$\<close> of \<open>re\<close> without flags: the end of the string, or just before a final newline.\<close>

definition at_end :: "string \<Rightarrow> bool" where
  "at_end s = (s = [] \<or> s = [CHR 0x0A])"

text \<open>Decimal digits: \<open>int(s)\<close> on a digit string and \<open>str(n)\<close> on a natural number.\<close>

definition digit_val :: "char \<Rightarrow> nat" where
  "digit_val c = (of_char c :: nat) - 48"

definition digit_char :: "nat \<Rightarrow> char" where
  "digit_char n = ''0123456789'' ! n"

definition py_int :: "string \<Rightarrow> py_error + nat" where
  "py_int s =
     (if s \<noteq> [] \<and> list_all is_digit s
      then Inr (foldl (\<lambda>acc c. acc * 10 + digit_val c) 0 s)
      else Inl ValueError)"

fun str_of_nat :: "nat \<Rightarrow> string" where
  "str_of_nat n =
     (if n < 10 then [digit_char n] else str_of_nat (n div 10) @ [digit_char (n mod 10)])"

declare str_of_nat.simps [simp del]

section \<open>Period label normalizer\<close>

definition CURRENT_YEAR :: nat where
  "CURRENT_YEAR = 2025"

definition LAST_ACTUAL_QUARTER :: nat where
  "LAST_ACTUAL_QUARTER = 2"

definition MONTH_TO_Q :: "(string \<times> nat) list" where
  "MONTH_TO_Q =
     [(''JAN'', 1), (''FEB'', 1), (''MAR'', 1), (''APR'', 2), (''MAY'', 2), (''JUN'', 2),
      (''JUL'', 3), (''AUG'', 3), (''SEP'', 3), (''OCT'', 4), (''NOV'', 4), (''DEC'', 4)]"

definition to_yyyy :: "string \<Rightarrow> string" where
  "to_yyyy y0 = (let y = strip y0 in if length y = 2 then ''20'' @ y else y)"

definition is_future_quarter :: "nat \<Rightarrow> nat \<Rightarrow> bool" where
  "is_future_quarter yyyy q =
     (if yyyy > CURRENT_YEAR then True
      else if yyyy < CURRENT_YEAR then False
      else q > LAST_ACTUAL_QUARTER)"

text \<open>The tail \<open>([AEF]?)$\<close> of several patterns: the captured suffix, if the tail matches.\<close>

definition match_suf :: "string \<Rightarrow> string option" where
  "match_suf rest =
     (case rest of
        [] \<Rightarrow> Some []
      | c # r \<Rightarrow>
          if c \<in> set ''AEF'' then (if at_end r then Some [c] else None)
          else if at_end rest then Some [] else None)"

text \<open>\<open>^(\d{1,2})/(\d{4})([AEF]?)$\<close>\<close>

definition match_mm_yyyy :: "string \<Rightarrow> (string \<times> string \<times> string) option" where
  "match_mm_yyyy s =
     (let mm = takeWhile is_digit s; r1 = dropWhile is_digit s in
      if length mm \<in> {1, 2} then
        (case r1 of
           c # r2 \<Rightarrow>
             if c = CHR ''/'' then
               (let yyyy = takeWhile is_digit r2; r3 = dropWhile is_digit r2 in
                if length yyyy = 4 then
                  (case match_suf r3 of Some suf \<Rightarrow> Some (mm, yyyy, suf) | None \<Rightarrow> None)
                else None)
             else None
         | [] \<Rightarrow> None)
      else None)"

text \<open>\<open>^([1-4])Q(\d{2,4})([AEF]?)$\<close>\<close>

definition match_quarter :: "string \<Rightarrow> (char \<times> string \<times> string) option" where
  "match_quarter s =
     (case s of
        q # k # rest \<Rightarrow>
          if is_q14 q \<and> k = CHR ''Q'' then
            (let y = takeWhile is_digit rest; r = dropWhile is_digit rest in
             if 2 \<le> length y \<and> length y \<le> 4 then
               (case match_suf r of Some suf \<Rightarrow> Some (q, y, suf) | None \<Rightarrow> None)
             else None)
          else None
      | _ \<Rightarrow> None)"

text \<open>\<open>^([A-Z]{3})-(\d{2})([1-4])Q([AEF]?)$\<close>\<close>

definition match_mon_yy_q :: "string \<Rightarrow> (string \<times> string \<times> char \<times> string) option" where
  "match_mon_yy_q s =
     (case s of
        a # b # c # h # d1 # d2 # q # k # rest \<Rightarrow>
          if is_AZ a \<and> is_AZ b \<and> is_AZ c \<and> h = CHR ''-'' \<and> is_digit d1 \<and> is_digit d2
             \<and> is_q14 q \<and> k = CHR ''Q''
          then (case match_suf rest of
                  Some suf \<Rightarrow> Some ([a, b, c], [d1, d2], q, suf) | None \<Rightarrow> None)
          else None
      | _ \<Rightarrow> None)"

text \<open>\<open>^([A-Z]{3})[-/](\d{2,4})$\<close>\<close>

definition match_mon_year :: "string \<Rightarrow> (string \<times> string) option" where
  "match_mon_year s =
     (case s of
        a # b # c # h # rest \<Rightarrow>
          if is_AZ a \<and> is_AZ b \<and> is_AZ c \<and> (h = CHR ''-'' \<or> h = CHR ''/'') then
            (let y = takeWhile is_digit rest; r = dropWhile is_digit rest in
             if 2 \<le> length y \<and> length y \<le> 4 \<and> at_end r then Some ([a, b, c], y) else None)
          else None
      | _ \<Rightarrow> None)"

text \<open>\<open>^(\d{4})(?:E|F)(?:[A-Z]+)?$\<close>\<close>

definition match_year_ef :: "string \<Rightarrow> string option" where
  "match_year_ef s =
     (case s of
        d1 # d2 # d3 # d4 # e # rest \<Rightarrow>
          if is_digit d1 \<and> is_digit d2 \<and> is_digit d3 \<and> is_digit d4
             \<and> (e = CHR ''E'' \<or> e = CHR ''F'') \<and> at_end (dropWhile is_AZ rest)
          then Some [d1, d2, d3, d4] else None
      | _ \<Rightarrow> None)"

text \<open>\<open>^(?:FY)?(\d{4})(?:FY)?([AEF]?)$\<close>\<close>

definition match_fy_year :: "string \<Rightarrow> (string \<times> string) option" where
  "match_fy_year s =
     (let s1 = (if startswith s ''FY'' then drop 2 s else s) in
      case s1 of
        d1 # d2 # d3 # d4 # rest \<Rightarrow>
          if is_digit d1 \<and> is_digit d2 \<and> is_digit d3 \<and> is_digit d4 then
            (case match_suf (if startswith rest ''FY'' then drop 2 rest else rest) of
               Some suf \<Rightarrow> Some ([d1, d2, d3, d4], suf) | None \<Rightarrow> None)
          else None
      | _ \<Rightarrow> None)"

text \<open>\<open>^([1-4])Q(\d{2})$\<close>\<close>

definition match_q_yy :: "string \<Rightarrow> (char \<times> string) option" where
  "match_q_yy s =
     (case s of
        q # k # d1 # d2 # rest \<Rightarrow>
          if is_q14 q \<and> k = CHR ''Q'' \<and> is_digit d1 \<and> is_digit d2 \<and> at_end rest
          then Some (q, [d1, d2]) else None
      | _ \<Rightarrow> None)"

text \<open>\<open>^\d{4}F?$\<close> or \<open>^[1-4]Q\d{4}F?$\<close>\<close>

definition match_canonical :: "string \<Rightarrow> bool" where
  "match_canonical s =
     (let year_tail = (\<lambda>t. case t of
          d1 # d2 # d3 # d4 # rest \<Rightarrow>
            is_digit d1 \<and> is_digit d2 \<and> is_digit d3 \<and> is_digit d4
            \<and> (at_end rest \<or> (case rest of f # r \<Rightarrow> f = CHR ''F'' \<and> at_end r | [] \<Rightarrow> False))
        | _ \<Rightarrow> False) in
      year_tail s \<or> (case s of q # k # t \<Rightarrow> is_q14 q \<and> k = CHR ''Q'' \<and> year_tail t | _ \<Rightarrow> False))"

text \<open>
  The first lines of \<open>normalize_period_label\<close>:
  \<open>s = str(label).strip().upper().replace(" ", "")\<close>, then every \<open>ACTUAL\<close> is deleted
  when \<open>s\<close> ends with it.
\<close>

definition clean_label :: "string \<Rightarrow> string" where
  "clean_label label = replace_str '' '' [] (upper (strip label))"

definition prepare_label :: "string \<Rightarrow> string" where
  "prepare_label label =
     (let s = clean_label label in
      if endswith s ''ACTUAL'' then replace_str ''ACTUAL'' [] s else s)"

definition month_rule :: "string \<Rightarrow> (nat \<times> string) option" where
  "month_rule s =
     (case match_mon_year s of
        Some (mon, y) \<Rightarrow> (case map_of MONTH_TO_Q mon of Some q \<Rightarrow> Some (q, y) | None \<Rightarrow> None)
      | None \<Rightarrow> None)"

definition suffix_F :: "string \<Rightarrow> string" where
  "suffix_F suf = (if suf \<in> {''E'', ''F''} then ''F'' else [])"

definition normalize_period_label :: "string \<Rightarrow> py_error + string" where
  "normalize_period_label label =
     (let s = prepare_label label in
      case match_mm_yyyy s of
        Some (mm, yyyy, suf) \<Rightarrow> Inr (to_yyyy yyyy @ suffix_F suf)
      | None \<Rightarrow>
      (case match_quarter s of
        Some (q, y, suf) \<Rightarrow> Inr (q # ''Q'' @ to_yyyy y @ suffix_F suf)
      | None \<Rightarrow>
      (case match_mon_yy_q s of
        Some (mon, y2, q, suf) \<Rightarrow> Inr (q # ''Q'' @ to_yyyy y2 @ suffix_F suf)
      | None \<Rightarrow>
      (case month_rule s of
        Some (q, y) \<Rightarrow>
          (case py_int (to_yyyy y) of
             Inl e \<Rightarrow> Inl e
           | Inr yyyy \<Rightarrow>
               Inr (str_of_nat q @ ''Q'' @ str_of_nat yyyy
                    @ (if is_future_quarter yyyy q then ''F'' else [])))
      | None \<Rightarrow>
      (case match_year_ef s of
        Some yyyy \<Rightarrow> Inr (yyyy @ ''F'')
      | None \<Rightarrow>
      (case match_fy_year s of
        Some (yyyy, suf) \<Rightarrow> Inr (yyyy @ suffix_F suf)
      | None \<Rightarrow>
      (case match_q_yy s of
        Some (q, y2) \<Rightarrow> Inr (q # ''Q'' @ to_yyyy y2)
      | None \<Rightarrow>
      (if match_canonical s then Inr s else Inr s))))))))"


section \<open>The period normalizer of the long-form reshape\<close>

text \<open>\<open>F?$\<close>\<close>

definition match_optF :: "string \<Rightarrow> bool" where
  "match_optF rest =
     (case rest of
        [] \<Rightarrow> True
      | c # r \<Rightarrow> (c = CHR ''F'' \<and> at_end r) \<or> at_end rest)"

text \<open>\<open>^([1-4])Q(\d{2,4})F?$\<close>\<close>

definition match_quarter_optF :: "string \<Rightarrow> (char \<times> string) option" where
  "match_quarter_optF x =
     (case x of
        q # k # rest \<Rightarrow>
          if is_q14 q \<and> k = CHR ''Q'' then
            (let y = takeWhile is_digit rest; r = dropWhile is_digit rest in
             if 2 \<le> length y \<and> length y \<le> 4 \<and> match_optF r then Some (q, y) else None)
          else None
      | _ \<Rightarrow> None)"

text \<open>\<open>^(\d{2,4})F?$\<close>\<close>

definition match_year_optF :: "string \<Rightarrow> string option" where
  "match_year_optF x =
     (let y = takeWhile is_digit x; r = dropWhile is_digit x in
      if 2 \<le> length y \<and> length y \<le> 4 \<and> match_optF r then Some y else None)"

definition normalize_period :: "string \<Rightarrow> string" where
  "normalize_period x0 =
     (let x = clean_label x0 in
      case match_quarter_optF x of
        Some (q, y) \<Rightarrow> q # ''Q'' @ (if length y = 2 then ''20'' @ y else y) @ ''F''
      | None \<Rightarrow>
      (case match_year_optF x of
        Some y0 \<Rightarrow>
          (let y = (if length y0 = 2 then ''20'' @ y0 else y0) in
           if CHR ''F'' \<in> set x then y @ ''F'' else y)
      | None \<Rightarrow> x))"

text \<open>
  \<open>is_period_col\<close>, which chooses the columns that \<open>tidy_long\<close> melts:
  \<open>re.sub(r"\s+", "", str(name)).upper()\<close> has to match \<open>\d{2,4}F?\<close> or
  \<open>[1-4]Q\d{2,4}F?\<close> as a whole (\<open>re.fullmatch\<close>).
\<close>

definition fullmatch_year :: "string \<Rightarrow> bool" where
  "fullmatch_year s =
     (let y = takeWhile is_digit s; r = dropWhile is_digit s in
      2 \<le> length y \<and> length y \<le> 4 \<and> (r = [] \<or> r = ''F''))"

definition fullmatch_quarter :: "string \<Rightarrow> bool" where
  "fullmatch_quarter s =
     (case s of
        q # k # rest \<Rightarrow> is_q14 q \<and> k = CHR ''Q'' \<and> fullmatch_year rest
      | _ \<Rightarrow> False)"

definition is_period_col :: "string \<Rightarrow> bool" where
  "is_period_col name =
     (let s = upper (filter (\<lambda>c. \<not> is_space c) name) in
      fullmatch_year s \<or> fullmatch_quarter s)"

section \<open>Tables\<close>

text \<open>
  A pandas \<open>DataFrame\<close> is a list of column names and a list of labelled rows; row labels
  may repeat, column names do not (\<open>read_csv\<close> renames repeated headers and
  \<open>normalize_df_columns\<close> collapses the columns it makes equal). A row gives a cell for
  every column name. A cell is missing (\<open>NaN\<close>, \<open>None\<close>, \<open>pd.NA\<close>), a number, or text:
  \<open>Num r\<close> is a cell that \<open>float()\<close> reads as \<open>r\<close>, \<open>Txt s\<close> a cell that is not missing
  and on which \<open>float()\<close> raises. Numbers are exact reals: the rounding of IEEE doubles
  and the values \<open>inf\<close> and \<open>nan\<close> made by arithmetic are not modelled.
\<close>

datatype cell = NA | Num real | Txt string

type_synonym row = "string \<Rightarrow> cell"

record table =
  columns :: "string list"
  rows :: "(string \<times> row) list"

definition labels :: "table \<Rightarrow> string list" where
  "labels t = map fst (rows t)"

definition df_empty :: "table \<Rightarrow> bool" where
  "df_empty t = (columns t = [] \<or> rows t = [])"

definition rows_named :: "table \<Rightarrow> string \<Rightarrow> (string \<times> row) list" where
  "rows_named t l = filter (\<lambda>lr. fst lr = l) (rows t)"

definition cell_at :: "table \<Rightarrow> string \<Rightarrow> string \<Rightarrow> cell" where
  "cell_at t l c =
     (case map_of (rows t) l of
        Some r \<Rightarrow> if c \<in> set (columns t) then r c else NA
      | None \<Rightarrow> NA)"

definition add_row :: "table \<Rightarrow> string \<Rightarrow> table" where
  "add_row t l = t\<lparr>rows := rows t @ [(l, \<lambda>c. NA)]\<rparr>"

definition add_col :: "table \<Rightarrow> string \<Rightarrow> table" where
  "add_col t c = \<lparr>columns = columns t @ [c], rows = map (\<lambda>lr. (fst lr, (snd lr)(c := NA))) (rows t)\<rparr>"

definition set_cell :: "table \<Rightarrow> string \<Rightarrow> string \<Rightarrow> cell \<Rightarrow> table" where
  "set_cell t l c v =
     t\<lparr>rows := map (\<lambda>lr. if fst lr = l then (fst lr, (snd lr)(c := v)) else lr) (rows t)\<rparr>"

definition drop_rows :: "table \<Rightarrow> string \<Rightarrow> table" where
  "drop_rows t l = t\<lparr>rows := filter (\<lambda>lr. fst lr \<noteq> l) (rows t)\<rparr>"

definition drop_col :: "table \<Rightarrow> string \<Rightarrow> table" where
  "drop_col t c =
     \<lparr>columns = removeAll c (columns t), rows = map (\<lambda>lr. (fst lr, (snd lr)(c := NA))) (rows t)\<rparr>"

text \<open>A row written as a list of its cells that are not missing, and a table read as lists.\<close>

definition row_of :: "(string \<times> cell) list \<Rightarrow> row" where
  "row_of kvs = (\<lambda>c. case map_of kvs c of Some v \<Rightarrow> v | None \<Rightarrow> NA)"

definition cells_of :: "table \<Rightarrow> (string \<times> cell list) list" where
  "cells_of t = map (\<lambda>lr. (fst lr, map (snd lr) (columns t))) (rows t)"

definition relabel :: "string \<Rightarrow> (string \<times> row) list \<Rightarrow> (string \<times> row) list" where
  "relabel l rs = map (\<lambda>lr. (l, snd lr)) rs"

text \<open>
  \<open>pd.concat(dfs, axis=0)\<close>: the rows one after the other, the columns in the order of
  their first appearance; a row is missing in the columns its table did not have.
\<close>

definition unique_in_order :: "'a list \<Rightarrow> 'a list" where
  "unique_in_order xs = rev (remdups (rev xs))"

definition restrict_row :: "string list \<Rightarrow> row \<Rightarrow> row" where
  "restrict_row cols r = (\<lambda>c. if c \<in> set cols then r c else NA)"

definition concat_tables :: "table list \<Rightarrow> table" where
  "concat_tables ts =
     \<lparr>columns = unique_in_order (concat (map columns ts)),
      rows = concat (map (\<lambda>t. map (\<lambda>lr. (fst lr, restrict_row (columns t) (snd lr))) (rows t)) ts)\<rparr>"

section \<open>Suffix-row folding\<close>

definition index_rename_map :: "(string \<times> string) list" where
  "index_rename_map =
     [(''revenue'', ''Revenue''), (''net revenue'', ''Revenue''), (''total revenue'', ''Revenue''),
      (''cost of revenue'', ''COGS''), (''cogs'', ''COGS''), (''cost of sales'', ''COGS''),
      (''gross profit'', ''GP''), (''gp'', ''GP''), (''gross margin'', ''GM''), (''gm'', ''GM''),
      (''op'', ''OP''), (''operating income'', ''OP''), (''operating profit'', ''OP''),
      (''op margin'', ''OP margin''), (''operating margin'', ''OP margin''),
      (''ebitda'', ''EBITDA''), (''ebitda margin'', ''EBITDA margin''),
      (''net profit'', ''NP''), (''np'', ''NP''), (''net income'', ''NP''),
      (''net profit margin'', ''NP Margin''), (''net margin'', ''NP Margin''),
      (''revenue growth'', ''revenue growth''),
      (''eps'', ''EPS''), (''earnings per share'', ''EPS''), (''non-gaap eps'', ''EPS''),
      (''roe'', ''ROE''), (''return on equity'', ''ROE''),
      (''operating leverage'', ''operating leverage''),
      (''free cash flow'', ''FCF''), (''fcf'', ''FCF''),
      (''research and development'', ''R&D''), (''r&d'', ''R&D''),
      (''capex'', ''CapEx''), (''capital expenditure'', ''CapEx''),
      (''capital expenditures'', ''CapEx''),
      (''property and equipment'', ''PP&E''), (''pp&e'', ''PP&E'')]"

definition SUFFIX_TO_Q :: "(string \<times> string) list" where
  "SUFFIX_TO_Q = [(''MAR'', ''1Q''), (''JUN'', ''2Q''), (''SEP'', ''3Q''), (''DEC'', ''4Q'')]"

definition canon_metric_name :: "string \<Rightarrow> string" where
  "canon_metric_name raw_base =
     (case map_of index_rename_map (lower (strip raw_base)) of
        Some n \<Rightarrow> n
      | None \<Rightarrow> strip raw_base)"

text \<open>\<open>^(\d{4})(F?)$\<close>\<close>

definition is_year_col :: "string \<Rightarrow> (string \<times> bool) option" where
  "is_year_col col =
     (case col of
        d1 # d2 # d3 # d4 # rest \<Rightarrow>
          if is_digit d1 \<and> is_digit d2 \<and> is_digit d3 \<and> is_digit d4 then
            (case rest of
               f # r \<Rightarrow>
                 if f = CHR ''F'' \<and> at_end r then Some ([d1, d2, d3, d4], True)
                 else if at_end rest then Some ([d1, d2, d3, d4], False) else None
             | [] \<Rightarrow> Some ([d1, d2, d3, d4], False))
          else None
      | _ \<Rightarrow> None)"

text \<open>
  The pattern of the suffix rows, with \<open>re.IGNORECASE\<close>:
  \<open>^(.*?)(?:\s*\(.*?\))?[\s_\-\/]+(MAR|JUN|SEP|DEC|FY(?:\s*RM)?)$\<close>.
  \<open>suffix_token\<close> is the last group up to the end, already reduced as the code reduces
  it (uppercased, \<open>FY RM\<close> to \<open>FY\<close>); \<open>seps_suf\<close> is the separators and the token;
  \<open>paren_scan\<close> the lazy body of the parenthetical, \<open>rest_match\<close> everything after the
  base, and \<open>split_from\<close> tries the bases from the shortest on (\<open>.\<close> matches no newline).
\<close>

definition is_sep :: "char \<Rightarrow> bool" where
  "is_sep c = (is_space c \<or> c = CHR ''_'' \<or> c = CHR ''-'' \<or> c = CHR ''/'')"

definition drop_final_newline :: "string \<Rightarrow> string" where
  "drop_final_newline s = (if s \<noteq> [] \<and> last s = CHR 0x0A then butlast s else s)"

definition suffix_token :: "string \<Rightarrow> string option" where
  "suffix_token t =
     (let u = drop_final_newline (upper t) in
      if u \<in> {''MAR'', ''JUN'', ''SEP'', ''DEC''} then Some u
      else if u = ''FY'' then Some ''FY''
      else if startswith u ''FY'' \<and> dropWhile is_space (drop 2 u) = ''RM'' then Some ''FY''
      else None)"

definition seps_suf :: "string \<Rightarrow> string option" where
  "seps_suf t =
     (case t of
        c # r \<Rightarrow> if is_sep c then suffix_token (dropWhile is_sep r) else None
      | [] \<Rightarrow> None)"

fun paren_scan :: "string \<Rightarrow> string option" where
  "paren_scan [] = None"
| "paren_scan (c # r) =
     (if c = CHR '')'' then
        (case seps_suf r of Some suf \<Rightarrow> Some suf | None \<Rightarrow> paren_scan r)
      else if c = CHR 0x0A then None
      else paren_scan r)"

definition rest_match :: "string \<Rightarrow> string option" where
  "rest_match rest =
     (case dropWhile is_space rest of
        p # t \<Rightarrow>
          if p = CHR ''('' then
            (case paren_scan t of Some suf \<Rightarrow> Some suf | None \<Rightarrow> seps_suf rest)
          else seps_suf rest
      | [] \<Rightarrow> seps_suf rest)"

fun split_from :: "string \<Rightarrow> string \<Rightarrow> (string \<times> string) option" where
  "split_from base [] = (case rest_match [] of Some suf \<Rightarrow> Some (base, suf) | None \<Rightarrow> None)"
| "split_from base (c # r) =
     (case rest_match (c # r) of
        Some suf \<Rightarrow> Some (base, suf)
      | None \<Rightarrow> if c = CHR 0x0A then None else split_from (base @ [c]) r)"

definition split_label :: "string \<Rightarrow> (string \<times> string) option" where
  "split_label l = split_from [] l"

definition work_rows :: "table \<Rightarrow> (string \<times> string \<times> string) list" where
  "work_rows t =
     List.map_filter
       (\<lambda>i. case split_label (strip i) of
               Some (base_raw, suf) \<Rightarrow> Some (i, base_raw, suf)
             | None \<Rightarrow> None)
       (labels t)"

text \<open>
  \<open>row = df.loc[original_name]\<close> is a \<open>Series\<close> when the label is that of one row and a
  \<open>DataFrame\<close> when it repeats; on a \<open>DataFrame\<close>, \<open>if pd.isna(row.get(col))\<close> raises
  \<open>ValueError\<close> (the truth value of a Series). \<open>df.at[base_std, target_col]\<close> is a
  \<open>Series\<close> too, and \<open>pd.isna\<close> of it raises in the \<open>if\<close>, when \<open>base_std\<close> labels
  several rows.
\<close>

datatype selection = Series row | Frame

definition target_col :: "string \<Rightarrow> string \<Rightarrow> bool \<Rightarrow> py_error + string" where
  "target_col suf yyyy isF =
     (if suf = ''FY'' then Inr (if isF then yyyy @ ''F'' else yyyy)
      else (case map_of SUFFIX_TO_Q suf of
              None \<Rightarrow> Inl KeyError
            | Some q \<Rightarrow> Inr (if isF then q @ yyyy @ ''F'' else q @ yyyy)))"

fun fold_cols :: "string \<Rightarrow> string \<Rightarrow> selection \<Rightarrow> string list \<Rightarrow> table \<Rightarrow> py_error + table" where
  "fold_cols base_std suf sel [] df = Inr df"
| "fold_cols base_std suf sel (col # cols) df =
     (case is_year_col col of
        None \<Rightarrow> fold_cols base_std suf sel cols df
      | Some (yyyy, isF) \<Rightarrow>
          (case target_col suf yyyy isF of
             Inl e \<Rightarrow> Inl e
           | Inr tc \<Rightarrow>
               (case sel of
                  Frame \<Rightarrow> Inl ValueError
                | Series r \<Rightarrow>
                    if r col = NA then fold_cols base_std suf sel cols df
                    else
                      (let df1 = (if base_std \<notin> set (labels df) then add_row df base_std else df);
                           df2 = (if tc \<notin> set (columns df1) then add_col df1 tc else df1)
                       in case rows_named df2 base_std of
                            [br] \<Rightarrow>
                              if snd br tc = NA
                              then fold_cols base_std suf sel cols (set_cell df2 base_std tc (r col))
                              else fold_cols base_std suf sel cols df2
                          | _ \<Rightarrow> Inl ValueError))))"

fun fold_work :: "(string \<times> string \<times> string) list \<Rightarrow> table \<Rightarrow> py_error + table" where
  "fold_work [] df = Inr df"
| "fold_work ((original_name, base_raw, suf) # ws) df =
     (case rows_named df original_name of
        [] \<Rightarrow> Inl KeyError
      | lr # others \<Rightarrow>
          (case fold_cols (canon_metric_name base_raw) suf
                  (if others = [] then Series (snd lr) else Frame) (columns df) df of
             Inl e \<Rightarrow> Inl e
           | Inr df' \<Rightarrow> fold_work ws (drop_rows df' original_name)))"

definition fold_month_suffix_rows :: "table \<Rightarrow> py_error + table" where
  "fold_month_suffix_rows df =
     (if df_empty df then Inr df
      else if work_rows df = [] then Inr df
      else fold_work (work_rows df) df)"

section \<open>Duplicate row merger\<close>

text \<open>
  \<open>make_index_unique\<close>: the first occurrence of a name keeps it, the occurrence after
  \<open>k\<close> earlier ones gets the suffix \<open>(k)\<close>. \<open>count\<close> is the \<open>defaultdict(int)\<close>.
\<close>

fun make_index_unique_from :: "(string \<Rightarrow> nat) \<Rightarrow> string list \<Rightarrow> string list" where
  "make_index_unique_from count [] = []"
| "make_index_unique_from count (name # names) =
     (if count name = 0 then name else name @ '' ('' @ str_of_nat (count name) @ '')'')
     # make_index_unique_from (count(name := count name + 1)) names"

definition make_index_unique :: "string list \<Rightarrow> string list" where
  "make_index_unique index_list = make_index_unique_from (\<lambda>n. 0) index_list"

text \<open>\<open>re.sub(r"\s*\([^\)]*\)", "", s)\<close>: every parenthetical, with the whitespace before it.\<close>

function strip_parens :: "string \<Rightarrow> string" where
  "strip_parens [] = []"
| "strip_parens (c # cs) =
     (case dropWhile is_space (c # cs) of
        p # r \<Rightarrow>
          if p = CHR ''('' \<and> CHR '')'' \<in> set r
          then strip_parens (tl (dropWhile (\<lambda>x. x \<noteq> CHR '')'') r))
          else c # strip_parens cs
      | [] \<Rightarrow> c # strip_parens cs)"
  by pat_completeness auto
termination
proof (relation "measure length")
  show "wf (measure length)" by simp
next
  fix c :: char and cs p r
  assume a: "dropWhile is_space (c # cs) = p # r" and "p = CHR ''('' \<and> CHR '')'' \<in> set r"
  have "length (tl (dropWhile (\<lambda>x. x \<noteq> CHR '')'') r))
          \<le> length (dropWhile (\<lambda>x. x \<noteq> CHR '')'') r)" by simp
  also have "\<dots> \<le> length r" by (rule length_dropWhile_le)
  finally have "length (tl (dropWhile (\<lambda>x. x \<noteq> CHR '')'') r)) \<le> length r" .
  moreover have "length (p # r) \<le> length (c # cs)"
    using length_dropWhile_le[of is_space "c # cs"] a by simp
  ultimately show "(tl (dropWhile (\<lambda>x. x \<noteq> CHR '')'') r), c # cs) \<in> measure length" by simp
qed simp_all

definition get_base_name :: "string \<Rightarrow> string" where
  "get_base_name idx = strip (strip_parens (strip idx))"

text \<open>
  The comparison of the accumulated row with a candidate in one column: the pair is
  skipped or agrees (\<open>continue\<close>), is in the band around \<open>large_diff_target\<close>
  (\<open>scale_entire_row = True\<close>), or makes the merge impossible (\<open>break\<close>). \<open>float()\<close>
  raises on text, which the code catches: the merge is then impossible.
\<close>

datatype verdict = Agree | ScaleMismatch | Conflict

definition compare_cells :: "real \<Rightarrow> real \<Rightarrow> real \<Rightarrow> cell \<Rightarrow> cell \<Rightarrow> verdict" where
  "compare_cells tolerance large_diff_target tolerance_ratio v1 v2 =
     (if v1 = NA \<or> v2 = NA then Agree
      else (case (v1, v2) of
              (Num val1, Num val2) \<Rightarrow>
                (let max_val = max \<bar>val1\<bar> \<bar>val2\<bar>;
                     min_val = min \<bar>val1\<bar> \<bar>val2\<bar> + 1 / 10 ^ 12;
                     diff = \<bar>val1 - val2\<bar>;
                     rel_diff = diff / (if max_val \<noteq> 0 then max_val else 1)
                 in if rel_diff \<le> tolerance then Agree
                    else
                      (let ratio = max_val / min_val;
                           lower = large_diff_target * (1 - tolerance_ratio);
                           upper = large_diff_target * (1 + tolerance_ratio)
                       in if lower \<le> ratio \<and> ratio \<le> upper then ScaleMismatch else Conflict))
            | _ \<Rightarrow> Conflict))"

text \<open>
  The loop over the columns: the result is \<open>(this_merge_possible, scale_entire_row)\<close>.
\<close>

fun check_cols :: "real \<Rightarrow> real \<Rightarrow> real \<Rightarrow> string list \<Rightarrow> row \<Rightarrow> row \<Rightarrow> bool \<Rightarrow> bool \<times> bool" where
  "check_cols tolerance large_diff_target tolerance_ratio [] merged current scale = (True, scale)"
| "check_cols tolerance large_diff_target tolerance_ratio (col # cols) merged current scale =
     (case compare_cells tolerance large_diff_target tolerance_ratio (merged col) (current col) of
        Agree \<Rightarrow> check_cols tolerance large_diff_target tolerance_ratio cols merged current scale
      | ScaleMismatch \<Rightarrow>
          check_cols tolerance large_diff_target tolerance_ratio cols merged current True
      | Conflict \<Rightarrow> (False, scale))"

text \<open>\<open>pd.to_numeric(errors='coerce')\<close> on a cell, and the sum of a row that skips the missing.\<close>

definition to_numeric :: "cell \<Rightarrow> cell" where
  "to_numeric v = (case v of Num x \<Rightarrow> Num x | _ \<Rightarrow> NA)"

definition num_or_zero :: "cell \<Rightarrow> real" where
  "num_or_zero v = (case v of Num x \<Rightarrow> x | _ \<Rightarrow> 0)"

definition row_sum :: "string list \<Rightarrow> row \<Rightarrow> real" where
  "row_sum cols r = sum_list (map (\<lambda>c. num_or_zero (r c)) cols)"

definition scale_cell :: "real \<Rightarrow> cell \<Rightarrow> cell" where
  "scale_cell k v = (case v of Num x \<Rightarrow> Num (x * k) | _ \<Rightarrow> NA)"

text \<open>The branch \<open>if scale_entire_row\<close>; nothing in its \<open>try\<close> block raises.\<close>

definition scale_merge :: "real \<Rightarrow> string list \<Rightarrow> row \<Rightarrow> row \<Rightarrow> row" where
  "scale_merge large_diff_target cols merged current =
     (let merged_numeric = (\<lambda>c. to_numeric (merged c));
          current_numeric = (\<lambda>c. to_numeric (current c));
          total1 = row_sum cols merged_numeric;
          total2 = row_sum cols current_numeric;
          scaled = (if total1 < total2 then (\<lambda>c. scale_cell large_diff_target (merged_numeric c))
                    else (\<lambda>c. scale_cell large_diff_target (current_numeric c)));
          base_row = (if total1 < total2 then current_numeric else merged_numeric)
      in (\<lambda>c. if base_row c = NA \<and> scaled c \<noteq> NA then scaled c else base_row c))"

text \<open>The branch without scaling: a missing cell takes the candidate's number.\<close>

definition fill_missing :: "row \<Rightarrow> row \<Rightarrow> row" where
  "fill_missing merged current =
     (\<lambda>c. if merged c = NA \<and> current c \<noteq> NA
          then (case current c of Num x \<Rightarrow> Num x | _ \<Rightarrow> merged c)
          else merged c)"

text \<open>One candidate against the accumulated row: \<open>None\<close> when the candidate is quarantined.\<close>

definition merge_pair :: "real \<Rightarrow> real \<Rightarrow> real \<Rightarrow> string list \<Rightarrow> row \<Rightarrow> row \<Rightarrow> row option" where
  "merge_pair tolerance large_diff_target tolerance_ratio cols merged current =
     (case check_cols tolerance large_diff_target tolerance_ratio cols merged current False of
        (False, _) \<Rightarrow> None
      | (True, True) \<Rightarrow> Some (scale_merge large_diff_target cols merged current)
      | (True, False) \<Rightarrow> Some (fill_missing merged current))"

fun merge_group ::
  "real \<Rightarrow> real \<Rightarrow> real \<Rightarrow> string list \<Rightarrow> row \<Rightarrow> (string \<times> row) list \<Rightarrow> (string \<times> row) list
   \<Rightarrow> row \<times> (string \<times> row) list" where
  "merge_group tol tgt tolr cols merged [] unmerged = (merged, unmerged)"
| "merge_group tol tgt tolr cols merged (current # rest) unmerged =
     (case merge_pair tol tgt tolr cols merged (snd current) of
        None \<Rightarrow> merge_group tol tgt tolr cols merged rest (unmerged @ [current])
      | Some merged' \<Rightarrow> merge_group tol tgt tolr cols merged' rest unmerged)"

text \<open>
  The loop over \<open>df.groupby(get_base_name)\<close>: the groups come in the sorted order of their
  keys, each with its rows in the order of the table.
\<close>

fun merge_groups ::
  "real \<Rightarrow> real \<Rightarrow> real \<Rightarrow> table \<Rightarrow> string list \<Rightarrow> (string \<times> row) list \<Rightarrow> (string \<times> row) list
   \<Rightarrow> (string \<times> row) list \<times> (string \<times> row) list" where
  "merge_groups tol tgt tolr df [] merged_rows unmerged_rows = (merged_rows, unmerged_rows)"
| "merge_groups tol tgt tolr df (base_idx # keys) merged_rows unmerged_rows =
     (case filter (\<lambda>lr. get_base_name (fst lr) = base_idx) (rows df) of
        [] \<Rightarrow> merge_groups tol tgt tolr df keys merged_rows unmerged_rows
      | first # rest \<Rightarrow>
          (case merge_group tol tgt tolr (columns df) (snd first) rest unmerged_rows of
             (merged, unmerged) \<Rightarrow>
               merge_groups tol tgt tolr df keys (merged_rows @ [(base_idx, merged)]) unmerged))"

definition merge_duplicate_rows :: "real \<Rightarrow> real \<Rightarrow> real \<Rightarrow> table \<Rightarrow> table" where
  "merge_duplicate_rows tolerance large_diff_target tolerance_ratio df =
     (case merge_groups tolerance large_diff_target tolerance_ratio df
             (sort (remdups (map get_base_name (labels df)))) [] [] of
        (merged_rows, unmerged_rows) \<Rightarrow>
          \<lparr>columns = (if merged_rows = [] then [] else columns df),
           rows = merged_rows
                  @ zip (make_index_unique (map fst unmerged_rows)) (map snd unmerged_rows)\<rparr>)"

section \<open>Column and row filters\<close>

text \<open>The token \<open>\<Delta>\<close> is written as its two bytes in UTF-8.\<close>

definition EXCLUDE_COL_TOKENS :: "string list" where
  "EXCLUDE_COL_TOKENS =
     [''DELTA'', [CHR 0xCE, CHR 0x94], ''CONSENSUS'', ''CONS.'', ''VS CONSENSUS'', ''%'',
      ''REVISED'', ''PREVIOUS'', ''CHG.'', ''CHG'', ''CHANGE'', ''2025E.1'', ''YR'', ''YR.1'',
      ''YR.2'', ''_CHG'']"

definition excluded_col :: "string \<Rightarrow> bool" where
  "excluded_col c =
     (let s = upper (strip c) in endswith s ''_CHG'' \<or> list_ex (contains s) EXCLUDE_COL_TOKENS)"

fun first_valid :: "cell list \<Rightarrow> cell" where
  "first_valid [] = NA"
| "first_valid (v # vs) = (if v = NA then first_valid vs else v)"

fun normalize_all :: "string list \<Rightarrow> py_error + string list" where
  "normalize_all [] = Inr []"
| "normalize_all (c # cs) =
     (case normalize_period_label c of
        Inl e \<Rightarrow> Inl e
      | Inr n \<Rightarrow> (case normalize_all cs of Inl e \<Rightarrow> Inl e | Inr ns \<Rightarrow> Inr (n # ns)))"

text \<open>
  The columns renamed to \<open>new\<close>, and \<open>collapse_duplicate_columns\<close>: a name made by several
  columns takes, row by row, the first cell of them that is not missing.
\<close>

definition rename_columns :: "string list \<Rightarrow> table \<Rightarrow> table" where
  "rename_columns new df =
     \<lparr>columns = unique_in_order new,
      rows = map (\<lambda>lr. (fst lr,
                (\<lambda>c. first_valid (map (\<lambda>on. snd lr (fst on))
                                     (filter (\<lambda>on. snd on = c) (zip (columns df) new))))))
               (rows df)\<rparr>"

definition normalize_df_columns :: "table \<Rightarrow> py_error + table" where
  "normalize_df_columns df =
     (if df_empty df then Inr df
      else
        (let kept = filter (\<lambda>c. \<not> excluded_col c) (columns df);
             df1 = \<lparr>columns = kept, rows = map (\<lambda>lr. (fst lr, restrict_row kept (snd lr))) (rows df)\<rparr>
         in if df_empty df1 then Inr df1
            else (case normalize_all kept of
                    Inl e \<Rightarrow> Inl e
                  | Inr cols \<Rightarrow> Inr (rename_columns cols df1))))"

text \<open>
  \<open>handle_actual_columns\<close>. \<open>df.at[idx, col]\<close> is a \<open>Series\<close> when \<open>idx\<close> labels several
  rows, and its truth value in the \<open>if\<close> raises.
\<close>

fun actual_cols :: "string list \<Rightarrow> py_error + (string \<times> string) list" where
  "actual_cols [] = Inr []"
| "actual_cols (col # cols) =
     (case actual_cols cols of
        Inl e \<Rightarrow> Inl e
      | Inr rest \<Rightarrow>
          if contains (upper col) ''ACTUAL'' then
            (case normalize_period_label (replace_str ''ACTUAL'' [] (upper col)) of
               Inl e \<Rightarrow> Inl e
             | Inr normalized_col \<Rightarrow>
                 Inr (if normalized_col \<noteq> [] then (col, normalized_col) # rest else rest))
          else Inr rest)"

fun move_actual :: "string \<Rightarrow> string \<Rightarrow> string list \<Rightarrow> table \<Rightarrow> py_error + table" where
  "move_actual original_col target [] df = Inr df"
| "move_actual original_col target (idx # idxs) df =
     (case rows_named df idx of
        [lr] \<Rightarrow>
          if original_col \<notin> set (columns df) then Inl KeyError
          else if snd lr target = NA \<and> snd lr original_col \<noteq> NA
          then move_actual original_col target idxs (set_cell df idx target (snd lr original_col))
          else move_actual original_col target idxs df
      | _ \<Rightarrow> Inl ValueError)"

fun handle_actual_loop :: "(string \<times> string) list \<Rightarrow> table \<Rightarrow> py_error + table" where
  "handle_actual_loop [] df = Inr df"
| "handle_actual_loop ((original_col, target) # cols_to_process) df =
     (let df1 = (if target \<notin> set (columns df) then add_col df target else df) in
      case move_actual original_col target (labels df1) df1 of
        Inl e \<Rightarrow> Inl e
      | Inr df2 \<Rightarrow> handle_actual_loop cols_to_process (drop_col df2 original_col))"

definition handle_actual_columns :: "table \<Rightarrow> py_error + table" where
  "handle_actual_columns df =
     (if df_empty df then Inr df
      else (case actual_cols (columns df) of
              Inl e \<Rightarrow> Inl e
            | Inr cols_to_process \<Rightarrow> handle_actual_loop cols_to_process df))"

text \<open>\<open>^revenue[\s_\-\/]+(net|fy(?:rm)?|dec)$\<close> on the stripped, lowercased label.\<close>

definition unwanted_revenue_label :: "string \<Rightarrow> bool" where
  "unwanted_revenue_label idx =
     (let l = lower (strip idx) in
      startswith l ''revenue'' \<and>
      (case drop 7 l of
         c # r \<Rightarrow> is_sep c \<and>
           drop_final_newline (dropWhile is_sep r) \<in> {''net'', ''fy'', ''fyrm'', ''dec''}
       | [] \<Rightarrow> False))"

definition drop_unwanted_revenue_rows :: "table \<Rightarrow> table" where
  "drop_unwanted_revenue_rows df =
     (if df_empty df then df
      else df\<lparr>rows := filter (\<lambda>lr. \<not> unwanted_revenue_label (fst lr)) (rows df)\<rparr>)"

text \<open>
  \<open>EXCLUDE_ROW_PATTERNS\<close>, matched at the start of the stripped, lowercased label without
  regard to case: the words, each followed by \<open>\s*\<close>, then one of \<open>old\<close>, \<open>delta\<close>, the
  glyph \<open>\<Delta>\<close> (in either case) or its mis-decoding, as bytes of UTF-8.
\<close>

fun eat_words :: "string list \<Rightarrow> string \<Rightarrow> string option" where
  "eat_words [] s = Some s"
| "eat_words (w # ws) s =
     (if startswith s w then eat_words ws (dropWhile is_space (drop (length w) s)) else None)"

definition stale_marks :: "string list" where
  "stale_marks =
     [''old'', [CHR 0xC3, CHR 0xA2, CHR 0xCB, CHR 0x86, CHR 0xE2, CHR 0x80, CHR 0xA0],
      ''delta'', [CHR 0xCE, CHR 0x94], [CHR 0xCE, CHR 0xB4]]"

definition EXCLUDE_ROW_PATTERNS :: "string list list" where
  "EXCLUDE_ROW_PATTERNS =
     [[''fcf''], [''gp''], [''gross'', ''profit''], [''free'', ''cash'', ''flow'']]"

definition unwanted_row_label :: "string \<Rightarrow> bool" where
  "unwanted_row_label idx =
     (let l = lower (strip idx) in
      list_ex (\<lambda>ws. case eat_words ws l of
                      Some rest \<Rightarrow> list_ex (startswith rest) stale_marks
                    | None \<Rightarrow> False)
              EXCLUDE_ROW_PATTERNS)"

definition remove_unwanted_rows :: "table \<Rightarrow> table" where
  "remove_unwanted_rows df =
     (if df_empty df then df
      else df\<lparr>rows := filter (\<lambda>lr. \<not> unwanted_row_label (fst lr)) (rows df)\<rparr>)"

section \<open>Metric classifiers\<close>

text \<open>
  \<open>match_and_rename_index\<close>: \<open>^([a-z\s]+?)(\s*\(.*?\))?$\<close> has to match the whole
  stripped, lowercased label; the lazy base ends before the whitespace in front of the
  parenthetical, which is kept as the suffix.
\<close>

definition match_and_rename_index :: "string \<Rightarrow> string option" where
  "match_and_rename_index idx0 =
     (let idx = lower (strip idx0);
          allowed = (\<lambda>c. is_az c \<or> is_space c);
          p = takeWhile allowed idx;
          rest = dropWhile allowed idx;
          base = rstrip p;
          suffix = drop (length base) idx
      in if rest = [] then
           (if idx \<noteq> [] \<and> last idx \<noteq> CHR 0x0A
            then map_of index_rename_map (strip idx) else None)
         else if base \<noteq> [] \<and> hd rest = CHR ''('' \<and> last rest = CHR '')'' \<and> 2 \<le> length rest
                 \<and> CHR 0x0A \<notin> set (butlast (tl rest))
         then (case map_of index_rename_map (strip base) of
                 Some renamed \<Rightarrow> Some (renamed @ suffix)
               | None \<Rightarrow> None)
         else None)"

definition group_keywords :: "(string \<times> string list) list" where
  "group_keywords =
     [(''CapEx'', [''capital expenditures'', ''capital expenditure'', ''capex'',
        ''purchase of property'', ''purchases of property'', ''purchase of pp&e'',
        ''additions to property'', ''acquisition of property'', ''investment in property'']),
      (''Acquisition & Equity Investment'', [''acquisition'', ''business combinations'',
        ''purchase of subsidiaries'', ''investment in associates'', ''investment in affiliates'',
        ''equity investment'', ''purchase of business'']),
      (''Intangible asset'', [''intangible assets'', ''purchase of intangible'',
        ''software development'', ''internal-use software'', ''capitalized development costs'',
        ''goodwill and intangibles'']),
      (''others'', [''investing activities'', ''purchase of securities'', ''marketable securities'',
        ''financial investment'', ''long-term investment''])]"

definition group_name_match :: "string \<Rightarrow> string option" where
  "group_name_match name0 =
     (let name = lower name0 in
      case filter (\<lambda>gk. list_ex (\<lambda>k. k = name) (snd gk)) group_keywords of
        gk # _ \<Rightarrow> Some (fst gk)
      | [] \<Rightarrow> None)"

definition SKIP_SEGMENT_WORDS :: "string list" where
  "SKIP_SEGMENT_WORDS =
     [''growth'', ''margin'', ''qoq'', ''yoy'', ''mix'', ''asp'', ''price'', ''chg'', ''change'']"

text \<open>
  The two patterns of the generic detection, on the stripped, lowercased label.
  \<open>^revenue[\s\-_\/]+(.+)$\<close>: the separators are greedy and give one character back
  when nothing follows them; \<open>^(.+)[\s\-_\/]+revenue$\<close>: the segment is greedy and leaves
  one separator. \<open>.\<close> matches no newline.
\<close>

definition seg_after_revenue :: "string \<Rightarrow> string option" where
  "seg_after_revenue low0 =
     (let low = drop_final_newline low0 in
      if startswith low ''revenue'' then
        (let t = drop 7 low; seps = takeWhile is_sep t; rem = dropWhile is_sep t in
         if seps = [] then None
         else if rem \<noteq> [] then (if CHR 0x0A \<in> set rem then None else Some rem)
         else if 2 \<le> length seps \<and> last seps \<noteq> CHR 0x0A then Some [last seps]
         else None)
      else None)"

definition seg_before_revenue :: "string \<Rightarrow> string option" where
  "seg_before_revenue low0 =
     (let low = drop_final_newline low0 in
      if endswith low ''revenue'' then
        (let t = take (length low - 7) low;
             trailing = length (takeWhile is_sep (rev t));
             k = min (length (takeWhile (\<lambda>c. c \<noteq> CHR 0x0A) t)) (length t - 1)
         in if 1 \<le> k \<and> length t - trailing \<le> k \<and> t \<noteq> [] then Some (take k t) else None)
      else None)"

text \<open>\<open>re.sub(r"\(.*?\)", "", seg)\<close> on a segment, which holds no newline.\<close>

function strip_parens_only :: "string \<Rightarrow> string" where
  "strip_parens_only [] = []"
| "strip_parens_only (c # cs) =
     (if c = CHR ''('' \<and> CHR '')'' \<in> set (takeWhile (\<lambda>x. x \<noteq> CHR 0x0A) cs)
      then strip_parens_only (tl (dropWhile (\<lambda>x. x \<noteq> CHR '')'') cs))
      else c # strip_parens_only cs)"
  by pat_completeness auto
termination
proof (relation "measure length")
  show "wf (measure length)" by simp
next
  fix c :: char and cs
  have "length (tl (dropWhile (\<lambda>x. x \<noteq> CHR '')'') cs))
          \<le> length (dropWhile (\<lambda>x. x \<noteq> CHR '')'') cs)" by simp
  also have "\<dots> \<le> length cs" by (rule length_dropWhile_le)
  finally have "length (tl (dropWhile (\<lambda>x. x \<noteq> CHR '')'') cs)) \<le> length cs" .
  then show "(tl (dropWhile (\<lambda>x. x \<noteq> CHR '')'') cs), c # cs) \<in> measure length" by simp
qed simp_all

text \<open>\<open>re.sub(r"[_\-\/]+", " ", seg)\<close> and \<open>str.title\<close> on ASCII letters.\<close>

fun join_seps_from :: "bool \<Rightarrow> string \<Rightarrow> string" where
  "join_seps_from in_run [] = []"
| "join_seps_from in_run (c # cs) =
     (if c \<in> set ''_-/''
      then (if in_run then join_seps_from True cs else CHR '' '' # join_seps_from True cs)
      else c # join_seps_from False cs)"

definition join_seps :: "string \<Rightarrow> string" where
  "join_seps s = join_seps_from False s"

fun title_from :: "bool \<Rightarrow> string \<Rightarrow> string" where
  "title_from inside [] = []"
| "title_from inside (c # cs) =
     (if is_az c \<or> is_AZ c
      then (if inside then lower_char c else upper_char c) # title_from True cs
      else c # title_from False cs)"

definition title :: "string \<Rightarrow> string" where
  "title s = title_from False s"

text \<open>
  The name that \<open>extract_revenue_segments_generic\<close> gives a label, if it takes it for a
  revenue segment.
\<close>

definition generic_segment_name :: "string \<Rightarrow> string option" where
  "generic_segment_name idx =
     (let low = lower (strip idx) in
      if \<not> contains low ''revenue'' then None
      else
        (case (case seg_after_revenue low of Some g \<Rightarrow> Some g | None \<Rightarrow> seg_before_revenue low) of
           None \<Rightarrow> None
         | Some g \<Rightarrow>
             (let seg = strip (strip_parens_only g) in
              if seg = [] \<or> list_ex (contains seg) SKIP_SEGMENT_WORDS then None
              else if seg \<in> {''net'', ''fy'', ''dec''}
                      \<or> (startswith seg ''fy'' \<and> dropWhile is_space (drop 2 seg) = ''rm'')
              then None
              else Some (''revenue-'' @ title (join_seps seg)))))"

definition extract_revenue_segments_generic :: "table \<Rightarrow> table" where
  "extract_revenue_segments_generic df =
     (let outs = concat (map (\<lambda>idx. case generic_segment_name idx of
                                       None \<Rightarrow> []
                                     | Some name \<Rightarrow> relabel name (rows_named df idx))
                             (unique_in_order (labels df)))
      in if outs = [] then \<lparr>columns = [], rows = []\<rparr>
         else \<lparr>columns = columns df, rows = outs\<rparr>)"

definition company_segments :: "(string \<times> string list) list" where
  "company_segments =
     [(''Nvidia'', [''Data Center'', ''Gaming'', ''Pro Visualization'', ''Automotive'', ''OEM & Other'']),
      (''NVIDIA'', [''Data Center'', ''Gaming'', ''Pro Visualization'', ''Automotive'', ''OEM & Other'']),
      (''google'', [''Google Services'', ''Google Cloud'', ''Other Bets'']),
      (''Amazon'', [''North America'', ''International'', ''AWS'', ''Advertising'']),
      (''Meta'', [''Family of Apps'', ''Reality Labs'']),
      (''Microsoft'', [''Productivity'', ''Intelligent Cloud'', ''Personal Computing'']),
      (''SK Hynix'', [''DRAM'', ''NAND'']),
      (''Samsung Electronics'', [''DX'', ''DS'', ''Display'', ''Harman'']),
      (''AMD'', [''Data Center'', ''Client'', ''Gaming'', ''Embedded'']),
      (''Advanced Micro Devices'', [''Data Center'', ''Client'', ''Gaming'', ''Embedded''])]"

text \<open>
  The dictionary path of \<open>process_extracted_dfs\<close>: for each segment of the company, the
  rows whose label contains \<open>revenue\<close> and the lowercased segment; then the rows whose
  label contains \<open>revenue\<close> and \<open>other\<close>.
\<close>

definition rows_containing :: "table \<Rightarrow> string \<Rightarrow> string \<Rightarrow> (string \<times> row) list" where
  "rows_containing df a b = filter (\<lambda>lr. contains (fst lr) a \<and> contains (fst lr) b) (rows df)"

fun dictionary_segments :: "table \<Rightarrow> string list \<Rightarrow> table \<Rightarrow> table" where
  "dictionary_segments df_merged [] df_segment = df_segment"
| "dictionary_segments df_merged (seg # segs) df_segment =
     (let matched = rows_containing df_merged ''revenue'' (lower seg) in
      dictionary_segments df_merged segs
        (if matched = [] \<or> columns df_merged = [] then df_segment
         else concat_tables
                [df_segment, \<lparr>columns = columns df_merged, rows = relabel (''revenue-'' @ seg) matched\<rparr>]))"

definition segment_table :: "table \<Rightarrow> string option \<Rightarrow> table" where
  "segment_table df_merged company_name =
     (let df_seg0 = \<lparr>columns = [], rows = []\<rparr>;
          df_seg1 =
            (case company_name of
               None \<Rightarrow> df_seg0
             | Some name \<Rightarrow>
                 (case (if name = [] then None else map_of company_segments name) of
                    None \<Rightarrow> df_seg0
                  | Some segs \<Rightarrow>
                      (let d = dictionary_segments df_merged segs df_seg0;
                           other_match = rows_containing df_merged ''revenue'' ''other''
                       in if other_match = [] \<or> columns df_merged = [] then d
                          else concat_tables
                                 [d, \<lparr>columns = columns df_merged,
                                      rows = relabel ''revenue-other'' other_match\<rparr>])));
          df_segment_generic = extract_revenue_segments_generic df_merged;
          df_seg2 = (if df_empty df_segment_generic then df_seg1
                     else concat_tables [df_seg1, df_segment_generic])
      in if df_empty df_seg2 then df_seg2
         else df_seg2\<lparr>rows := zip (make_index_unique (labels df_seg2)) (map snd (rows df_seg2))\<rparr>)"

section \<open>Template enrichment\<close>

text \<open>The integer keys \<open>2023\<close> and \<open>2024\<close> of \<open>amd_template_data\<close> are written as strings.\<close>

definition amd_template_data :: "(string \<times> (string \<times> real) list) list" where
  "amd_template_data =
     [(''Revenue'',
        [(''2023'', 22680), (''2024'', 25785), (''2025F'', 32659), (''2026F'', 38178),
         (''1Q24'', 5473), (''2Q24'', 5835), (''3Q24'', 6819), (''4Q24'', 7658),
         (''1Q25'', 7438), (''2Q25'', 7685), (''3Q25F'', 8738), (''4Q25F'', 8798)]),
      (''COGS'',
        [(''2023'', 11244), (''2024'', 12026), (''2025F'', 15784), (''2026F'', 16879),
         (''1Q24'', 2612), (''2Q24'', 2734), (''3Q24'', 3162), (''4Q24'', 3518),
         (''1Q25'', 3446), (''2Q25'', 4359), (''3Q25F'', 4019), (''4Q25F'', 3959)]),
      (''GP'',
        [(''2023'', 11436), (''2024'', 13759), (''2025F'', 16876), (''2026F'', 21299),
         (''1Q24'', 2861), (''2Q24'', 3101), (''3Q24'', 3657), (''4Q24'', 4140),
         (''1Q25'', 3992), (''2Q25'', 3326), (''3Q25F'', 4719), (''4Q25F'', 4839)]),
      (''OP'',
        [(''2023'', 4834), (''2024'', 6138), (''2025F'', 7019), (''2026F'', 9994),
         (''1Q24'', 1133), (''2Q24'', 1264), (''3Q24'', 1715), (''4Q24'', 2026),
         (''1Q25'', 1779), (''2Q25'', 897), (''3Q25F'', 2169), (''4Q25F'', 2174)]),
      (''NP'',
        [(''2023'', 4292), (''2024'', 5420), (''2025F'', 6142), (''2026F'', 8747),
         (''1Q24'', 1013), (''2Q24'', 1126), (''3Q24'', 1504), (''4Q24'', 1777),
         (''1Q25'', 1566), (''2Q25'', 781), (''3Q25F'', 1895), (''4Q25F'', 1900)]),
      (''EPS'',
        [(''2023'', 264 / 100), (''2024'', 331 / 100), (''2025F'', 377 / 100), (''2026F'', 534 / 100),
         (''1Q24'', 62 / 100), (''2Q24'', 69 / 100), (''3Q24'', 92 / 100), (''4Q24'', 109 / 100),
         (''1Q25'', 96 / 100), (''2Q25'', 48 / 100), (''3Q25F'', 116 / 100), (''4Q25F'', 116 / 100)])]"

definition template_year_cols :: "string list" where
  "template_year_cols = [''2023'', ''2024'', ''2025F'', ''2026F'']"

definition template_quarter_cols :: "string list" where
  "template_quarter_cols =
     [''1Q24'', ''2Q24'', ''3Q24'', ''4Q24'', ''1Q25'', ''2Q25'', ''3Q25F'', ''4Q25F'']"

definition template_columns :: "string list" where
  "template_columns = ''Company'' # template_year_cols @ [''2027F''] @ template_quarter_cols"

text \<open>\<open>round(x, 1)\<close>: to one decimal, a tie to the even digit.\<close>

definition py_round1 :: "real \<Rightarrow> real" where
  "py_round1 x =
     (let y = x * 10; f = \<lfloor>y\<rfloor>; d = y - of_int f in
      (if d < 1 / 2 then of_int f
       else if 1 / 2 < d then of_int f + 1
       else if even f then of_int f else of_int f + 1) / 10)"

definition template_metric_row :: "(string \<times> real) list \<Rightarrow> row" where
  "template_metric_row data =
     (\<lambda>c. if c = ''Company'' then Txt ''AMD''
          else if c \<in> set template_year_cols \<or> c \<in> set template_quarter_cols
          then (case map_of data c of Some v \<Rightarrow> Num v | None \<Rightarrow> Txt [])
          else if c = ''2027F'' then Txt [] else NA)"

definition op_margin_cell :: "cell \<Rightarrow> cell \<Rightarrow> cell" where
  "op_margin_cell op_cell rev_cell =
     (case (op_cell, rev_cell) of
        (Num op_val, Num rev_val) \<Rightarrow>
          if rev_val \<noteq> 0 then Num (py_round1 ((op_val / rev_val) * 100)) else Txt []
      | _ \<Rightarrow> Txt [])"

definition create_amd_template_df :: table where
  "create_amd_template_df =
     (let base = map (\<lambda>md. (fst md, template_metric_row (snd md))) amd_template_data in
      \<lparr>columns = template_columns,
       rows =
         (case (map_of base ''OP'', map_of base ''Revenue'') of
            (Some op_row, Some rev_row) \<Rightarrow>
              base @ [(''OP margin'',
                (\<lambda>c. if c = ''Company'' then Txt ''AMD''
                     else if c \<in> set template_year_cols \<or> c \<in> set template_quarter_cols
                     then op_margin_cell (op_row c) (rev_row c)
                     else if c = ''2027F'' then Txt [] else NA))]
          | _ \<Rightarrow> base)\<rparr>)"

definition is_amd_company :: "string \<Rightarrow> bool" where
  "is_amd_company company_name =
     (company_name \<noteq> [] \<and>
      (contains (lower company_name) ''amd''
       \<or> contains (lower company_name) ''advanced micro devices''))"

text \<open>
  The inner loop over the template's columns for a metric that the table has.
  \<open>combined_df.loc[metric, col]\<close> is a \<open>Series\<close> when the label repeats, and
  \<open>pd.isna(existing_val) or ...\<close> then raises.
\<close>

fun fill_from_template :: "string \<Rightarrow> row \<Rightarrow> string list \<Rightarrow> table \<Rightarrow> py_error + table" where
  "fill_from_template metric trow [] combined = Inr combined"
| "fill_from_template metric trow (col # cols) combined =
     (if col \<in> set (columns combined) then
        (case rows_named combined metric of
           [lr] \<Rightarrow>
             if (snd lr col = NA \<or> snd lr col = Txt []) \<and> trow col \<noteq> Txt []
             then fill_from_template metric trow cols (set_cell combined metric col (trow col))
             else fill_from_template metric trow cols combined
         | _ \<Rightarrow> Inl ValueError)
      else fill_from_template metric trow cols combined)"

fun apply_template_rows :: "string list \<Rightarrow> (string \<times> row) list \<Rightarrow> table \<Rightarrow> py_error + table" where
  "apply_template_rows tcols [] combined = Inr combined"
| "apply_template_rows tcols ((metric, trow) # more_rows) combined =
     (if metric \<notin> set (labels combined)
      then apply_template_rows tcols more_rows
             (combined\<lparr>rows := rows combined @ [(metric, restrict_row tcols trow)]\<rparr>)
      else (case fill_from_template metric trow tcols combined of
              Inl e \<Rightarrow> Inl e
            | Inr combined' \<Rightarrow> apply_template_rows tcols more_rows combined'))"

definition apply_amd_template_if_needed :: "table \<Rightarrow> string \<Rightarrow> py_error + table" where
  "apply_amd_template_if_needed df company_name =
     (if \<not> is_amd_company company_name then Inr df
      else if df_empty df then Inr create_amd_template_df
      else apply_template_rows (columns create_amd_template_df) (rows create_amd_template_df) df)"

section \<open>Table set reconciler\<close>

definition clean_table :: "table \<Rightarrow> py_error + table" where
  "clean_table df =
     (case normalize_df_columns df of
        Inl e \<Rightarrow> Inl e
      | Inr df1 \<Rightarrow>
          (case handle_actual_columns df1 of
             Inl e \<Rightarrow> Inl e
           | Inr df2 \<Rightarrow>
               (case fold_month_suffix_rows df2 of
                  Inl e \<Rightarrow> Inl e
                | Inr df3 \<Rightarrow> Inr (remove_unwanted_rows (drop_unwanted_revenue_rows df3)))))"

fun clean_all :: "table list \<Rightarrow> py_error + table list" where
  "clean_all [] = Inr []"
| "clean_all (df # dfs) =
     (case clean_table df of
        Inl e \<Rightarrow> Inl e
      | Inr c \<Rightarrow> (case clean_all dfs of Inl e \<Rightarrow> Inl e | Inr cs \<Rightarrow> Inr (c # cs)))"

definition uniquify :: "table \<Rightarrow> table" where
  "uniquify df =
     (if df_empty df then df
      else df\<lparr>rows := zip (make_index_unique (labels df)) (map snd (rows df))\<rparr>)"

text \<open>Step 1: the exact renames, over the distinct labels of the concatenated table.\<close>

definition index_map_table :: "table \<Rightarrow> table" where
  "index_map_table df_merged =
     (let matched_rows =
        concat (map (\<lambda>idx. case match_and_rename_index idx of
                             Some new_idx \<Rightarrow>
                               if new_idx \<noteq> [] then relabel new_idx (rows_named df_merged idx) else []
                           | None \<Rightarrow> [])
                    (unique_in_order (labels df_merged)))
      in if matched_rows = [] then \<lparr>columns = [], rows = []\<rparr>
         else uniquify \<lparr>columns = columns df_merged, rows = matched_rows\<rparr>)"

text \<open>Step 2: the keyword groups, over every label of the concatenated table, repeated or not.\<close>

definition group_table :: "table \<Rightarrow> table" where
  "group_table df_merged =
     (let group_rows =
        concat (map (\<lambda>idx. case group_name_match idx of
                             Some g \<Rightarrow> relabel g (rows_named df_merged idx)
                           | None \<Rightarrow> [])
                    (labels df_merged))
      in if group_rows = [] then \<lparr>columns = [], rows = []\<rparr>
         else uniquify \<lparr>columns = columns df_merged, rows = group_rows\<rparr>)"

text \<open>
  Step 4.5: of the rows \<open>revenue-...\<close>, the first of each name without its \<open>(k)\<close>.
  \<open>revenue_rows.loc[idx]\<close> is a row when the label is that of one row; on a repeated
  label the code puts a \<open>DataFrame\<close> in the list of rows, which is given here as an error.
\<close>

text \<open>\<open>re.sub(r"\s*\(\d+\)$", "", idx)\<close>\<close>

definition strip_count_suffix :: "string \<Rightarrow> string" where
  "strip_count_suffix idx =
     (let s = drop_final_newline idx; r = rev s in
      case r of
        c # r1 \<Rightarrow>
          if c = CHR '')'' then
            (let ds = takeWhile is_digit r1; r2 = dropWhile is_digit r1 in
             case r2 of
               b # r3 \<Rightarrow>
                 if b = CHR ''('' \<and> ds \<noteq> []
                 then rev (dropWhile is_space r3) @ drop (length s) idx
                 else idx
             | [] \<Rightarrow> idx)
          else idx
      | [] \<Rightarrow> idx)"

fun dedupe_revenue ::
  "(string \<times> row) list \<Rightarrow> string list \<Rightarrow> string list \<Rightarrow> py_error + (string \<times> row) list" where
  "dedupe_revenue revenue_rows [] seen = Inr []"
| "dedupe_revenue revenue_rows (idx # idxs) seen =
     (let base = strip_count_suffix idx in
      if base \<in> set seen then dedupe_revenue revenue_rows idxs seen
      else (case filter (\<lambda>lr. fst lr = idx) revenue_rows of
              [lr] \<Rightarrow>
                (case dedupe_revenue revenue_rows idxs (base # seen) of
                   Inl e \<Rightarrow> Inl e
                 | Inr out \<Rightarrow> Inr (lr # out))
            | _ \<Rightarrow> Inl ValueError))"

text \<open>Step 5-1: the labels in which \<open>\(.*?\)\<close> is found.\<close>

fun has_parenthetical :: "string \<Rightarrow> bool" where
  "has_parenthetical [] = False"
| "has_parenthetical (c # cs) =
     ((c = CHR ''('' \<and> CHR '')'' \<in> set (takeWhile (\<lambda>x. x \<noteq> CHR 0x0A) cs))
      \<or> has_parenthetical cs)"

text \<open>
  \<open>process_extracted_dfs\<close>, its first result: the canonical table, \<open>None\<close> for an empty
  list of tables. The list of errors it returns is always empty, and the report of the
  missing segments is not part of the table.
\<close>

definition reconcile :: "table \<Rightarrow> string option \<Rightarrow> py_error + table" where
  "reconcile df_merged0 company_name =
     (let df_merged = df_merged0\<lparr>rows := map (\<lambda>lr. (lower (strip (fst lr)), snd lr)) (rows df_merged0)\<rparr>;
          df_index_map = index_map_table df_merged;
          df_group_kw = group_table df_merged;
          df_segment = segment_table df_merged company_name;
          final_result = concat_tables [df_index_map, df_group_kw, df_segment];
          revenue_rows = filter (\<lambda>lr. startswith (fst lr) ''revenue-'') (rows final_result);
          non_revenue_rows = filter (\<lambda>lr. \<not> startswith (fst lr) ''revenue-'') (rows final_result)
      in case dedupe_revenue revenue_rows (map fst revenue_rows) [] of
           Inl e \<Rightarrow> Inl e
         | Inr deduped \<Rightarrow>
             (let final2 = final_result\<lparr>rows := non_revenue_rows @ deduped\<rparr>;
                  merged = merge_duplicate_rows (5 / 100) 1000 (5 / 100) final2;
                  final_result_unique =
                    merged\<lparr>rows := filter (\<lambda>lr. \<not> has_parenthetical (fst lr)) (rows merged)\<rparr>
              in case company_name of
                   None \<Rightarrow> Inr final_result_unique
                 | Some name \<Rightarrow>
                     if name = [] then Inr final_result_unique
                     else apply_amd_template_if_needed final_result_unique name))"

definition process_extracted_dfs :: "table list \<Rightarrow> string option \<Rightarrow> py_error + table option" where
  "process_extracted_dfs list_of_dfs company_name =
     (if list_of_dfs = [] then Inr None
      else (case clean_all list_of_dfs of
              Inl e \<Rightarrow> Inl e
            | Inr cleaned \<Rightarrow>
                (case reconcile (concat_tables cleaned) company_name of
                   Inl e \<Rightarrow> Inl e
                 | Inr t \<Rightarrow> Inr (Some t))))"

section \<open>Properties of the period normalizers\<close>

subsection \<open>Prepared labels\<close>














subsection \<open>The claims about the normalizers\<close>

text \<open>
  C5. With current year 2025 and last actual quarter 2, the period normalizer returns
  \<open>3Q2024\<close> for \<open>3Q24\<close>, \<open>2025F\<close> for \<open>12/2025E\<close>, \<open>3Q2025F\<close> for \<open>SEP-25\<close>,
  \<open>1Q2025\<close> for \<open>MAR-25\<close> and \<open>2Q2025\<close> for \<open>2Q2025ACTUAL\<close>.
\<close>

theorem normalize_period_label_examples:
  "CURRENT_YEAR = 2025 \<and> LAST_ACTUAL_QUARTER = 2
   \<and> normalize_period_label ''3Q24'' = Inr ''3Q2024''
   \<and> normalize_period_label ''12/2025E'' = Inr ''2025F''
   \<and> normalize_period_label ''SEP-25'' = Inr ''3Q2025F''
   \<and> normalize_period_label ''MAR-25'' = Inr ''1Q2025''
   \<and> normalize_period_label ''2Q2025ACTUAL'' = Inr ''2Q2025''"
  by code_simp

text \<open>
  C6 fails on the code: the label \<open>SEP-0025\<close> is a recognized period form (the month
  rule matches it), it is normalized to \<open>3Q25\<close>, which is not a standard label, and a
  second pass turns \<open>3Q25\<close> into \<open>3Q2025\<close>. The month rule prints \<open>int(year)\<close>, which
  drops the leading zeros; the quarter rule, which prints the year as it is written,
  maps \<open>3Q0025\<close> to itself.
\<close>

theorem normalize_period_label_not_idempotent:
  "month_rule (prepare_label ''SEP-0025'') = Some (3, ''0025'')
   \<and> normalize_period_label ''SEP-0025'' = Inr ''3Q25''
   \<and> normalize_period_label ''3Q25'' = Inr ''3Q2025''
   \<and> normalize_period_label ''3Q0025'' = Inr ''3Q0025''"
  by code_simp




text \<open>
  C10 fails on the code: \<open>is_period_col\<close> removes every whitespace character before it
  matches, so it takes the headers \<open>1Q<TAB>2024\<close> and \<open>1Q<TAB>2024F\<close> for quarterly
  columns and \<open>tidy_long\<close> melts them; \<open>normalize_period\<close> removes the space character
  only, matches neither and returns the two headers unchanged and distinct. With a space in
  place of the TAB, or none, both forms go to \<open>1Q2024F\<close>.
\<close>

theorem normalize_period_keeps_tab_quarter:
  "is_period_col (''1Q'' @ [CHR 0x09] @ ''2024'')
   \<and> is_period_col (''1Q'' @ [CHR 0x09] @ ''2024F'')
   \<and> normalize_period (''1Q'' @ [CHR 0x09] @ ''2024'') = ''1Q'' @ [CHR 0x09] @ ''2024''
   \<and> normalize_period (''1Q'' @ [CHR 0x09] @ ''2024F'') = ''1Q'' @ [CHR 0x09] @ ''2024F''
   \<and> is_period_col ''1q 2024'' \<and> is_period_col ''1Q2024F''
   \<and> normalize_period ''1q 2024'' = ''1Q2024F''
   \<and> normalize_period ''1Q2024'' = ''1Q2024F''
   \<and> normalize_period ''1Q2024F'' = ''1Q2024F''"
  by code_simp

section \<open>Properties of the duplicate row merger\<close>







text \<open>
  C3. A quarantined row is kept under a name made unique by a suffix. The code breaks
  this: the merger runs \<open>make_index_unique\<close> over the quarantined rows alone, so the first
  quarantined row of a name keeps it. Here the second row \<open>CapEx\<close> cannot be merged into
  the first (ratio 5), the third merges, and the output has two rows named \<open>CapEx\<close>.
\<close>

theorem merge_duplicate_rows_quarantine_same_name:
  "cells_of (merge_duplicate_rows (5 / 100) 1000 (5 / 100)
     \<lparr>columns = [''2024''],
      rows = [(''CapEx'', row_of [(''2024'', Num 1)]),
              (''CapEx'', row_of [(''2024'', Num 5)]),
              (''CapEx (1)'', row_of [(''2024'', Num 1)])]\<rparr>)
   = [(''CapEx'', [Num 1]), (''CapEx'', [Num 5])]"
  by code_simp

section \<open>Properties of the table set reconciler\<close>

text \<open>
  C4. The canonical table has pairwise distinct row labels. The code breaks this: the
  label \<open>capex\<close> is renamed to \<open>CapEx\<close> and is in the group \<open>CapEx\<close>, the label
  \<open>purchase of property\<close> is in the group only; the group's first row (value 5) cannot be
  merged with the renamed row (value 1) and is quarantined under its own name \<open>CapEx\<close>.
\<close>

theorem process_extracted_dfs_duplicate_label:
  "(case process_extracted_dfs
           [\<lparr>columns = [''2024''],
             rows = [(''purchase of property'', row_of [(''2024'', Num 5)]),
                     (''capex'', row_of [(''2024'', Num 1)])]\<rparr>] None of
      Inr (Some t) \<Rightarrow> Some (columns t, cells_of t)
    | _ \<Rightarrow> None)
   = Some ([''2024''], [(''CapEx'', [Num 1]), (''CapEx'', [Num 5])])"
  by code_simp

text \<open>
  C8. No revenue-segment row is made from a label whose segment text holds a qualifier
  word. The generic path keeps to this, the dictionary path does not: for the company
  \<open>Nvidia\<close> the label \<open>revenue_gaming yoy\<close>, which the generic path skips, contains
  \<open>revenue\<close> and \<open>gaming\<close> and becomes the row \<open>revenue-Gaming\<close>.
\<close>

theorem dictionary_path_takes_qualifier_label:
  "generic_segment_name ''revenue_gaming yoy'' = None
   \<and> (case process_extracted_dfs
           [\<lparr>columns = [''2024''],
             rows = [(''revenue_gaming yoy'', row_of [(''2024'', Num 5)])]\<rparr>] (Some ''Nvidia'') of
         Inr (Some t) \<Rightarrow> Some (columns t, cells_of t)
       | _ \<Rightarrow> None)
      = Some ([''2024''], [(''revenue-Gaming'', [Num 5])])"
  by code_simp

end
